theory Spec2Isabelle
  imports Complex_Main "HOL-Library.Word" "HOL-Library.Sublist"
begin

section \<open>JavaScript values\<close>

text \<open>
  A JavaScript string is a sequence of UTF-16 code units. String literals of the source
  are written \<open>js ''...''\<close>: every character of the literal becomes the code
  unit of the same number.
\<close>

type_synonym jschar = "16 word"
type_synonym jsstring = "jschar list"

definition cu :: "char \<Rightarrow> jschar" where
  "cu c = of_char c"

definition js :: "string \<Rightarrow> jsstring" where
  "js s = map cu s"

text \<open>
  The values \<open>JSON.parse\<close> can produce. A number is kept as the mathematical
  value of its literal. An object is the list of its own properties, each key once, in
  the order in which the text first names them; the source only reads properties by
  name, so the order in which JavaScript would enumerate them plays no part. The value
  \<open>undefined\<close> is not a JSON value: a property that is read and not there is
  \<open>None\<close>.
\<close>

datatype json =
    JNull
  | JBool bool
  | JNum rat
  | JStr jsstring
  | JArr "json list"
  | JObj "(jsstring \<times> json) list"

text \<open>What a \<open>throw\<close> carries: an instance of \<open>Error\<close> (with the message for
  \<open>new Error(msg)\<close>; the messages of the engine's own \<open>TypeError\<close> and
  \<open>SyntaxError\<close> are not modelled), or any other value.\<close>

datatype thrown =
    Error jsstring
  | TypeError
  | SyntaxError
  | NonError

fun instanceof_Error :: "thrown \<Rightarrow> bool" where
  "instanceof_Error NonError = False"
| "instanceof_Error _ = True"

text \<open>
  Truthiness (\<open>ToBoolean\<close>). A number is falsy when its double is zero: the
  literal's value rounds to zero exactly when its magnitude is at most \<open>2^-1075\<close>,
  half of the least positive double.
\<close>

fun truthy :: "json \<Rightarrow> bool" where
  "truthy JNull = False"
| "truthy (JBool b) = b"
| "truthy (JNum q) = (1 < \<bar>q\<bar> * 2 ^ 1075)"
| "truthy (JStr s) = (s \<noteq> [])"
| "truthy (JArr _) = True"
| "truthy (JObj _) = True"

fun truthy_opt :: "json option \<Rightarrow> bool" where
  "truthy_opt None = False"
| "truthy_opt (Some v) = truthy v"

text \<open>
  Reading a property \<open>v.name\<close>, for a name that no built-in prototype defines
  (the source reads \<open>modifiedCode\<close>, \<open>explanation\<close>, \<open>code\<close> and
  \<open>prompt\<close> only): \<open>null\<close> throws a \<open>TypeError\<close>, an object gives
  its own property, every other value gives \<open>undefined\<close>.
\<close>

fun get_prop :: "json \<Rightarrow> jsstring \<Rightarrow> thrown + json option" where
  "get_prop JNull name = Inl TypeError"
| "get_prop (JObj kvs) name = Inr (map_of kvs name)"
| "get_prop _ name = Inr None"

text \<open>Defining a property of an object under construction: a key that is already
  there keeps its place and takes the new value.\<close>

fun put_prop :: "jsstring \<Rightarrow> json \<Rightarrow> (jsstring \<times> json) list \<Rightarrow> (jsstring \<times> json) list" where
  "put_prop k v [] = [(k, v)]"
| "put_prop k v ((k', v') # kvs) =
     (if k = k' then (k, v) # kvs else (k', v') # put_prop k v kvs)"

section \<open>JSON.parse\<close>

text \<open>
  \<open>JSON.parse\<close> belongs to the JavaScript runtime. It is modelled after the JSON
  grammar of ECMAScript: a lexer for the JSON lexical grammar, then a parser for the
  JSON syntactic grammar over the tokens. Every failure is a \<open>SyntaxError\<close>.
  The limits of an engine's resources (the depth of nesting it can take) are not
  modelled. Every function below is total: the lexer comes with its termination proof.
\<close>

datatype token =
    TLBrace | TRBrace | TLBrack | TRBrack | TColon | TComma
  | TString jsstring
  | TNumber rat
  | TTrue | TFalse | TNull

definition is_ws :: "jschar \<Rightarrow> bool" where
  "is_ws c = (c = 0x09 \<or> c = 0x0A \<or> c = 0x0D \<or> c = 0x20)"

definition is_digit :: "jschar \<Rightarrow> bool" where
  "is_digit c = (0x30 \<le> c \<and> c \<le> 0x39)"

definition digit_val :: "jschar \<Rightarrow> nat" where
  "digit_val c = unat c - 0x30"

definition hex_val :: "jschar \<Rightarrow> nat option" where
  "hex_val c =
     (if 0x30 \<le> c \<and> c \<le> 0x39 then Some (unat c - 0x30)
      else if 0x41 \<le> c \<and> c \<le> 0x46 then Some (unat c - 0x41 + 10)
      else if 0x61 \<le> c \<and> c \<le> 0x66 then Some (unat c - 0x61 + 10)
      else None)"

text \<open>The four hexadecimal digits of a \<open>\uXXXX\<close> escape.\<close>

definition hex4 :: "jschar \<Rightarrow> jschar \<Rightarrow> jschar \<Rightarrow> jschar \<Rightarrow> jschar option" where
  "hex4 a b c d =
     (case (hex_val a, hex_val b, hex_val c, hex_val d) of
        (Some w, Some x, Some y, Some z) \<Rightarrow> Some (of_nat (((w * 16 + x) * 16 + y) * 16 + z))
      | _ \<Rightarrow> None)"

text \<open>The character after a backslash, other than \<open>u\<close>.\<close>

definition escape_char :: "jschar \<Rightarrow> jschar option" where
  "escape_char e =
     (if e = cu CHR 0x22 then Some 0x22
      else if e = cu CHR 0x5C then Some 0x5C
      else if e = cu CHR ''/'' then Some 0x2F
      else if e = cu CHR ''b'' then Some 0x08
      else if e = cu CHR ''f'' then Some 0x0C
      else if e = cu CHR ''n'' then Some 0x0A
      else if e = cu CHR ''r'' then Some 0x0D
      else if e = cu CHR ''t'' then Some 0x09
      else None)"

definition cons_fst :: "'a \<Rightarrow> ('a list \<times> 'b) option \<Rightarrow> ('a list \<times> 'b) option" where
  "cons_fst x r = map_option (\<lambda>(xs, rest). (x # xs, rest)) r"

text \<open>The characters of a string literal after its opening quote, up to the closing
  quote: the string's value and the text after the literal.\<close>

fun lex_string :: "jsstring \<Rightarrow> (jsstring \<times> jsstring) option" where
  "lex_string [] = None"
| "lex_string (c # cs) =
     (if c = cu CHR 0x22 then Some ([], cs)
      else if c = cu CHR 0x5C then
        (case cs of
           [] \<Rightarrow> None
         | e # r \<Rightarrow>
             if e = cu CHR ''u'' then
               (case r of
                  h1 # h2 # h3 # h4 # r' \<Rightarrow>
                    (case hex4 h1 h2 h3 h4 of
                       None \<Rightarrow> None
                     | Some u \<Rightarrow> cons_fst u (lex_string r'))
                | _ \<Rightarrow> None)
             else
               (case escape_char e of
                  None \<Rightarrow> None
                | Some x \<Rightarrow> cons_fst x (lex_string r)))
      else if c < 0x20 then None
      else cons_fst c (lex_string cs))"

definition digits_val :: "jsstring \<Rightarrow> nat" where
  "digits_val ds = foldl (\<lambda>a d. 10 * a + digit_val d) 0 ds"

text \<open>
  A number literal \<open>-? int frac? exp?\<close> at the head of the text, part by part; each
  part gives what it read and the text after it.
\<close>

fun lex_sign :: "jsstring \<Rightarrow> bool \<times> jsstring" where
  "lex_sign [] = (False, [])"
| "lex_sign (c # cs) = (if c = cu CHR ''-'' then (True, cs) else (False, c # cs))"

text \<open>The integer part is \<open>0\<close> or starts with a non-zero digit.\<close>

definition lex_int :: "jsstring \<Rightarrow> (jsstring \<times> jsstring) option" where
  "lex_int cs =
     (let ip = takeWhile is_digit cs
      in if ip = [] \<or> (1 < length ip \<and> hd ip = cu CHR ''0'') then None
         else Some (ip, dropWhile is_digit cs))"

fun lex_frac :: "jsstring \<Rightarrow> (jsstring \<times> jsstring) option" where
  "lex_frac [] = Some ([], [])"
| "lex_frac (c # cs) =
     (if c = cu CHR ''.'' then
        (if takeWhile is_digit cs = [] then None
         else Some (takeWhile is_digit cs, dropWhile is_digit cs))
      else Some ([], c # cs))"

text \<open>The exponent as an integer, 0 when there is none.\<close>

fun lex_exp_sign :: "jsstring \<Rightarrow> bool \<times> jsstring" where
  "lex_exp_sign [] = (False, [])"
| "lex_exp_sign (c # cs) =
     (if c = cu CHR ''-'' then (True, cs)
      else if c = cu CHR ''+'' then (False, cs)
      else (False, c # cs))"

fun lex_exp :: "jsstring \<Rightarrow> (int \<times> jsstring) option" where
  "lex_exp [] = Some (0, [])"
| "lex_exp (c # cs) =
     (if c = cu CHR ''e'' \<or> c = cu CHR ''E'' then
        (case lex_exp_sign cs of
           (eneg, cs') \<Rightarrow>
             if takeWhile is_digit cs' = [] then None
             else Some ((if eneg then - int (digits_val (takeWhile is_digit cs'))
                         else int (digits_val (takeWhile is_digit cs'))),
                        dropWhile is_digit cs'))
      else Some (0, c # cs))"

definition number_value :: "bool \<Rightarrow> jsstring \<Rightarrow> jsstring \<Rightarrow> int \<Rightarrow> rat" where
  "number_value neg ip fp e =
     (let mant = (of_nat (digits_val (ip @ fp)) :: rat) / 10 ^ length fp;
          scaled = (if e < 0 then mant / 10 ^ nat (- e) else mant * 10 ^ nat e)
      in if neg then - scaled else scaled)"

definition lex_number :: "jsstring \<Rightarrow> (rat \<times> jsstring) option" where
  "lex_number cs =
     (case lex_sign cs of
        (neg, cs1) \<Rightarrow>
          (case lex_int cs1 of
             None \<Rightarrow> None
           | Some (ip, cs2) \<Rightarrow>
               (case lex_frac cs2 of
                  None \<Rightarrow> None
                | Some (fp, cs3) \<Rightarrow>
                    (case lex_exp cs3 of
                       None \<Rightarrow> None
                     | Some (e, cs4) \<Rightarrow> Some (number_value neg ip fp e, cs4)))))"

lemma length_cons_fst:
  "cons_fst x r = Some (s, rest) \<Longrightarrow> \<exists>s'. r = Some (s', rest)"
  by (cases r) (auto simp: cons_fst_def)

lemma lex_string_shorter:
  "lex_string cs = Some (s, rest) \<Longrightarrow> length rest < length cs"
proof (induction cs arbitrary: s rest rule: lex_string.induct)
  case 1
  then show ?case by simp
next
  case (2 c cs)
  then show ?case
    by (fastforce split: if_splits list.splits option.splits dest!: length_cons_fst)
qed

lemma lex_sign_le: "lex_sign cs = (neg, rest) \<Longrightarrow> length rest \<le> length cs"
  by (cases cs) (auto split: if_splits)

lemma lex_int_shorter:
  assumes "lex_int cs = Some (ip, rest)"
  shows "length rest < length cs"
proof -
  from assms have ne: "takeWhile is_digit cs \<noteq> []" and rest: "rest = dropWhile is_digit cs"
    by (auto simp: lex_int_def Let_def split: if_splits)
  have "length (takeWhile is_digit cs) + length (dropWhile is_digit cs) = length cs"
    by (metis length_append takeWhile_dropWhile_id)
  moreover from ne have "0 < length (takeWhile is_digit cs)"
    by simp
  ultimately show ?thesis
    unfolding rest by linarith
qed

lemma lex_frac_le: "lex_frac cs = Some (fp, rest) \<Longrightarrow> length rest \<le> length cs"
  using length_dropWhile_le [of is_digit "tl cs"]
  by (cases cs) (auto split: if_splits)

lemma lex_exp_sign_le: "lex_exp_sign cs = (eneg, rest) \<Longrightarrow> length rest \<le> length cs"
  by (cases cs) (auto split: if_splits)

lemma lex_exp_le:
  assumes "lex_exp cs = Some (e, rest)"
  shows "length rest \<le> length cs"
proof (cases cs)
  case Nil
  with assms show ?thesis by simp
next
  case (Cons c cs')
  show ?thesis
  proof (cases "c = cu CHR ''e'' \<or> c = cu CHR ''E''")
    case False
    with assms Cons show ?thesis by auto
  next
    case True
    obtain eneg r where s: "lex_exp_sign cs' = (eneg, r)"
      by (cases "lex_exp_sign cs'")
    with assms Cons True have "rest = dropWhile is_digit r"
      by (auto split: if_splits)
    moreover have "length (dropWhile is_digit r) \<le> length r"
      by (rule length_dropWhile_le)
    moreover from s have "length r \<le> length cs'"
      by (rule lex_exp_sign_le)
    ultimately show ?thesis
      using Cons by simp
  qed
qed

lemma lex_number_shorter:
  assumes "lex_number cs = Some (q, rest)"
  shows "length rest < length cs"
proof -
  obtain neg cs1 where 1: "lex_sign cs = (neg, cs1)"
    by (cases "lex_sign cs")
  with assms obtain ip cs2 where 2: "lex_int cs1 = Some (ip, cs2)"
    by (auto simp: lex_number_def split: option.splits)
  with assms 1 obtain fp cs3 where 3: "lex_frac cs2 = Some (fp, cs3)"
    by (auto simp: lex_number_def split: option.splits)
  with assms 1 2 obtain e where 4: "lex_exp cs3 = Some (e, rest)"
    by (auto simp: lex_number_def split: option.splits)
  from lex_sign_le [OF 1] lex_int_shorter [OF 2] lex_frac_le [OF 3] lex_exp_le [OF 4]
  show ?thesis by linarith
qed

text \<open>
  The lexer. White space is tab, line feed, carriage return and space. A number
  starts at \<open>-\<close> or a digit.
\<close>

definition cons_tok :: "token \<Rightarrow> token list option \<Rightarrow> token list option" where
  "cons_tok t r = map_option ((#) t) r"

function lex :: "jsstring \<Rightarrow> token list option" where
  "lex [] = Some []"
| "lex (c # cs) =
     (if is_ws c then lex cs
      else if c = cu CHR ''{'' then cons_tok TLBrace (lex cs)
      else if c = cu CHR ''}'' then cons_tok TRBrace (lex cs)
      else if c = cu CHR ''['' then cons_tok TLBrack (lex cs)
      else if c = cu CHR '']'' then cons_tok TRBrack (lex cs)
      else if c = cu CHR '':'' then cons_tok TColon (lex cs)
      else if c = cu CHR '','' then cons_tok TComma (lex cs)
      else if c = cu CHR 0x22 then
        (case lex_string cs of
           None \<Rightarrow> None
         | Some (s, rest) \<Rightarrow> cons_tok (TString s) (lex rest))
      else if c = cu CHR ''-'' \<or> is_digit c then
        (case lex_number (c # cs) of
           None \<Rightarrow> None
         | Some (q, rest) \<Rightarrow> cons_tok (TNumber q) (lex rest))
      else if take 4 (c # cs) = js ''true'' then cons_tok TTrue (lex (drop 3 cs))
      else if take 5 (c # cs) = js ''false'' then cons_tok TFalse (lex (drop 4 cs))
      else if take 4 (c # cs) = js ''null'' then cons_tok TNull (lex (drop 3 cs))
      else None)"
  by pat_completeness auto
termination
proof (relation "measure length")
  fix c cs x2 x y
  assume "lex_number (c # cs) = Some x2" "(x, y) = x2"
  then have "lex_number (c # cs) = Some (x, y)" by simp
  then show "(y, c # cs) \<in> measure length"
    by (auto dest: lex_number_shorter)
next
  fix c cs x2 x y
  assume "lex_string cs = Some x2" "(x, y) = x2"
  then have "lex_string cs = Some (x, y)" by simp
  then show "(y, c # cs) \<in> measure length"
    by (auto dest: lex_string_shorter)
qed auto

text \<open>
  The parser, as a stack machine over the tokens. A frame of the stack is an array or an
  object that is still open: the elements read so far, or the members read so far and the
  key whose value is being read. \<open>expect_value\<close> stands before a value,
  \<open>after_value\<close> behind one. There is no trailing comma, and nothing but the
  value in the text.
\<close>

datatype frame =
    InArray "json list"
  | InObject "(jsstring \<times> json) list" jsstring

fun value_of_token :: "token \<Rightarrow> json option" where
  "value_of_token (TString s) = Some (JStr s)"
| "value_of_token (TNumber q) = Some (JNum q)"
| "value_of_token TTrue = Some (JBool True)"
| "value_of_token TFalse = Some (JBool False)"
| "value_of_token TNull = Some JNull"
| "value_of_token _ = None"

fun expect_value :: "frame list \<Rightarrow> token list \<Rightarrow> json option"
  and after_value :: "json \<Rightarrow> frame list \<Rightarrow> token list \<Rightarrow> json option" where
  "expect_value st [] = None"
| "expect_value st (TLBrack # ts) =
     (case ts of
        TRBrack # r \<Rightarrow> after_value (JArr []) st r
      | _ \<Rightarrow> expect_value (InArray [] # st) ts)"
| "expect_value st (TLBrace # ts) =
     (case ts of
        TRBrace # r \<Rightarrow> after_value (JObj []) st r
      | TString k # TColon # r \<Rightarrow> expect_value (InObject [] k # st) r
      | _ \<Rightarrow> None)"
| "expect_value st (t # ts) =
     (case value_of_token t of
        Some v \<Rightarrow> after_value v st ts
      | None \<Rightarrow> None)"
| "after_value v [] ts = (if ts = [] then Some v else None)"
| "after_value v (InArray acc # st) ts =
     (case ts of
        TComma # r \<Rightarrow> expect_value (InArray (acc @ [v]) # st) r
      | TRBrack # r \<Rightarrow> after_value (JArr (acc @ [v])) st r
      | _ \<Rightarrow> None)"
| "after_value v (InObject acc k # st) ts =
     (case ts of
        TComma # TString k' # TColon # r \<Rightarrow> expect_value (InObject (put_prop k v acc) k' # st) r
      | TRBrace # r \<Rightarrow> after_value (JObj (put_prop k v acc)) st r
      | _ \<Rightarrow> None)"

definition JSON_parse :: "jsstring \<Rightarrow> thrown + json" where
  "JSON_parse text =
     (case lex text of
        None \<Rightarrow> Inl SyntaxError
      | Some ts \<Rightarrow>
          (case expect_value [] ts of
             None \<Rightarrow> Inl SyntaxError
           | Some v \<Rightarrow> Inr v))"

section \<open>The response normalizer\<close>

text \<open>
  \<open>text.match(/\{[\s\S]*\}/)\<close>: the leftmost match of an opening brace, then as many
  characters of any kind as possible, then a closing brace. It is the span from the first
  \<open>{\<close> of the text to its last \<open>}\<close>, and there is none (\<open>null\<close>) when no
  \<open>}\<close> stands behind the first \<open>{\<close>.
\<close>

definition brace_match :: "jsstring \<Rightarrow> jsstring option" where
  "brace_match text =
     (case dropWhile (\<lambda>c. c \<noteq> cu CHR ''{'') text of
        [] \<Rightarrow> None
      | open_brace # rest \<Rightarrow>
          if cu CHR ''}'' \<in> set rest
          then Some (open_brace # rev (dropWhile (\<lambda>c. c \<noteq> cu CHR ''}'') (rev rest)))
          else None)"

definition parse_failed_message :: jsstring where
  "parse_failed_message =
     js ''The AI response couldn't be parsed as JSON. Showing raw response instead.''"

text \<open>The object literal \<open>{ modifiedCode: text, explanation: "..." }\<close> of the last
  \<open>return\<close> of \<open>safeJsonParse\<close>.\<close>

definition raw_response :: "jsstring \<Rightarrow> json" where
  "raw_response text =
     JObj [(js ''modifiedCode'', JStr text), (js ''explanation'', JStr parse_failed_message)]"

text \<open>
  \<open>safeJsonParse\<close>, the same function in both source files. The outer \<open>try\<close>
  returns what \<open>JSON.parse(text)\<close> returns. Its \<open>catch\<close> runs the inner
  \<open>try\<close>, which returns the parse of the brace span when there is a span and it
  parses; an exception of the inner \<open>try\<close> is caught and logged, and the function
  goes on to return the object made of the raw text. The result is a sum, as for every
  function that could throw: that no \<open>Inl\<close> comes out is a theorem below.
  Writing to the console is not modelled.
\<close>

definition safeJsonParse :: "jsstring \<Rightarrow> thrown + json" where
  "safeJsonParse text =
     (case JSON_parse text of
        Inr v \<Rightarrow> Inr v
      | Inl e \<Rightarrow>
          (case (case brace_match text of
                   Some jsonMatch \<Rightarrow>
                     (case JSON_parse jsonMatch of
                        Inr v \<Rightarrow> Some v
                      | Inl innerError \<Rightarrow> None)
                 | None \<Rightarrow> None) of
             Some v \<Rightarrow> Inr v
           | None \<Rightarrow> Inr (raw_response text)))"

section \<open>The request orchestrator\<close>

text \<open>
  The world outside the two entry points: the environment variable (\<open>None\<close> when it
  is not set), the call to the text-generation service (it resolves to the generated text
  or rejects with what it throws), and \<open>ToString\<close> on a value that is not a string,
  which the HTTP route's template literal can meet (formatting a number is
  floating-point work and stays a parameter).
\<close>

record gen_request =
  gen_model :: string
  gen_system :: jsstring
  gen_prompt :: jsstring
  gen_temperature :: rat

record world =
  OPENAI_API_KEY :: "jsstring option"
  generateText :: "gen_request \<Rightarrow> thrown + jsstring"
  ToString_other :: "json \<Rightarrow> thrown + jsstring"

text \<open>\<open>!process.env.OPENAI_API_KEY\<close>: the variable is not set, or is the empty string.\<close>

fun not_str :: "jsstring option \<Rightarrow> bool" where
  "not_str None = True"
| "not_str (Some s) = (s = [])"

text \<open>\<open>!v\<close> and \<open>a || b\<close> on values that may be \<open>undefined\<close>.\<close>

definition js_not :: "json option \<Rightarrow> bool" where
  "js_not v = (\<not> truthy_opt v)"

definition or_else :: "json option \<Rightarrow> json option \<Rightarrow> json option" where
  "or_else a b = (if truthy_opt a then a else b)"

definition systemPrompt :: jsstring where
  "systemPrompt = js
    (''You are a code improvement assistant. A user provides code and a prompt to improve it.\<newline>''
     @ ''\<newline>''
     @ ''You MUST respond with a valid JSON object containing exactly these two fields:\<newline>''
     @ ''1. \"modifiedCode\": The improved code as a string\<newline>''
     @ ''2. \"explanation\": Your explanation of the changes\<newline>''
     @ ''\<newline>''
     @ ''Example of the expected response format:\<newline>''
     @ ''{\<newline>''
     @ ''  \"modifiedCode\": \"function example() { console.log('Hello world'); }\",\<newline>''
     @ ''  \"explanation\": \"Added a console.log statement to the function.\"\<newline>''
     @ ''}\<newline>''
     @ ''\<newline>''
     @ ''Do not include any text outside of the JSON object. ''
     @ ''Do not include markdown formatting, code blocks, or any other text.'')"

definition userMessage :: "jsstring \<Rightarrow> jsstring \<Rightarrow> jsstring" where
  "userMessage code prompt =
     js ''Code:\<newline>'' @ code @ js ''\<newline>\<newline>Change Request:\<newline>'' @ prompt"

definition request_for :: "jsstring \<Rightarrow> jsstring \<Rightarrow> gen_request" where
  "request_for code prompt =
     \<lparr>gen_model = ''gpt-4o'', gen_system = systemPrompt,
      gen_prompt = userMessage code prompt, gen_temperature = 2 / 10\<rparr>"

definition not_configured_message :: jsstring where
  "not_configured_message =
     js ''OpenAI API key is not configured. Please contact the administrator.''"

subsection \<open>The server action\<close>

text \<open>The value \<open>iterateCode\<close> returns: an object with the two properties, each
  holding whatever value the expression of the source gave.\<close>

record iteration_result =
  modifiedCode :: "json option"
  explanation :: "json option"

definition no_code_placeholder :: jsstring where
  "no_code_placeholder = js ''// Error: No code was generated''"

definition incomplete_message :: jsstring where
  "incomplete_message = js ''The AI response was incomplete. Please try again.''"

definition failed_request_message :: jsstring where
  "failed_request_message =
     js ''Failed to process your request. Please check your inputs and try again.''"

text \<open>
  What follows the generation call in the \<open>try\<close> block, from
  \<open>const parsed = safeJsonParse(text)\<close> to the two \<open>return\<close>s. The condition
  \<open>!parsed.modifiedCode || !parsed.explanation\<close> reads the first property, and the
  second only when the first is truthy; reading a property of \<open>null\<close> throws.
\<close>

definition fields_missing :: "json \<Rightarrow> thrown + bool" where
  "fields_missing parsed =
     (case get_prop parsed (js ''modifiedCode'') of
        Inl e \<Rightarrow> Inl e
      | Inr m \<Rightarrow>
          if js_not m then Inr True
          else (case get_prop parsed (js ''explanation'') of
                  Inl e \<Rightarrow> Inl e
                | Inr x \<Rightarrow> Inr (js_not x)))"

definition result_of_parsed :: "jsstring \<Rightarrow> json \<Rightarrow> thrown + iteration_result" where
  "result_of_parsed text parsed =
     (case fields_missing parsed of
        Inl e \<Rightarrow> Inl e
      | Inr missing \<Rightarrow>
          (case get_prop parsed (js ''modifiedCode'') of
             Inl e \<Rightarrow> Inl e
           | Inr m \<Rightarrow>
               (case get_prop parsed (js ''explanation'') of
                  Inl e \<Rightarrow> Inl e
                | Inr x \<Rightarrow>
                    if missing then
                      Inr \<lparr>modifiedCode =
                             or_else (or_else m (Some (JStr text))) (Some (JStr no_code_placeholder)),
                           explanation = or_else x (Some (JStr incomplete_message))\<rparr>
                    else Inr \<lparr>modifiedCode = m, explanation = x\<rparr>)))"

text \<open>
  The \<open>try\<close> block of \<open>iterateCode\<close>: the generation calls it made, in order, and
  what it returned or threw. The lines that write to the console are left out.
\<close>

definition iterateCode_try ::
  "world \<Rightarrow> jsstring \<Rightarrow> jsstring \<Rightarrow> gen_request list \<times> (thrown + iteration_result)" where
  "iterateCode_try w code prompt =
     (if not_str (OPENAI_API_KEY w) then ([], Inl (Error not_configured_message))
      else
        (case generateText w (request_for code prompt) of
           Inl e \<Rightarrow> ([request_for code prompt], Inl e)
         | Inr text \<Rightarrow>
             ([request_for code prompt],
              (case safeJsonParse text of
                 Inl e \<Rightarrow> Inl e
               | Inr parsed \<Rightarrow> result_of_parsed text parsed))))"

text \<open>The \<open>catch\<close> block: an \<open>Error\<close> is thrown again as it is, anything else
  is replaced by a new \<open>Error\<close> with the fixed message.\<close>

definition iterateCode ::
  "world \<Rightarrow> jsstring \<Rightarrow> jsstring \<Rightarrow> gen_request list \<times> (thrown + iteration_result)" where
  "iterateCode w code prompt =
     (case iterateCode_try w code prompt of
        (calls, Inr r) \<Rightarrow> (calls, Inr r)
      | (calls, Inl error) \<Rightarrow>
          if instanceof_Error error then (calls, Inl error)
          else (calls, Inl (Error failed_request_message)))"

subsection \<open>The HTTP route\<close>

record response =
  status :: nat
  payload :: json

text \<open>\<open>NextResponse.json(body, { status })\<close>; the status is 200 when none is given.
  The payload is the value handed over, before it is serialised.\<close>

definition error_object :: "jsstring \<Rightarrow> json" where
  "error_object msg = JObj [(js ''error'', JStr msg)]"

definition required_message :: jsstring where
  "required_message = js ''Code and prompt are required''"

definition unexpected_message :: jsstring where
  "unexpected_message = js ''An unexpected error occurred''"

text \<open>\<open>ToString\<close> of a template literal's substitution.\<close>

fun to_string :: "world \<Rightarrow> json option \<Rightarrow> thrown + jsstring" where
  "to_string w None = Inr (js ''undefined'')"
| "to_string w (Some (JStr s)) = Inr s"
| "to_string w (Some v) = ToString_other w v"

text \<open>
  The \<open>try\<close> block of \<open>POST\<close>. Its argument is the outcome of
  \<open>await req.json()\<close>: the parsed body, or what the call threw. The destructuring
  \<open>const { code, prompt } = ...\<close> reads the two properties.
\<close>

definition POST_try :: "world \<Rightarrow> thrown + json \<Rightarrow> gen_request list \<times> (thrown + response)" where
  "POST_try w req_json =
     (case req_json of
        Inl e \<Rightarrow> ([], Inl e)
      | Inr body \<Rightarrow>
          (case get_prop body (js ''code'') of
             Inl e \<Rightarrow> ([], Inl e)
           | Inr code \<Rightarrow>
               (case get_prop body (js ''prompt'') of
                  Inl e \<Rightarrow> ([], Inl e)
                | Inr prompt \<Rightarrow>
                    if js_not code \<or> js_not prompt then
                      ([], Inr \<lparr>status = 400, payload = error_object required_message\<rparr>)
                    else if not_str (OPENAI_API_KEY w) then
                      ([], Inr \<lparr>status = 500, payload = error_object not_configured_message\<rparr>)
                    else
                      (case to_string w code of
                         Inl e \<Rightarrow> ([], Inl e)
                       | Inr c \<Rightarrow>
                           (case to_string w prompt of
                              Inl e \<Rightarrow> ([], Inl e)
                            | Inr p \<Rightarrow>
                                (case generateText w (request_for c p) of
                                   Inl e \<Rightarrow> ([request_for c p], Inl e)
                                 | Inr text \<Rightarrow>
                                     ([request_for c p],
                                      (case safeJsonParse text of
                                         Inl e \<Rightarrow> Inl e
                                       | Inr parsed \<Rightarrow>
                                           Inr \<lparr>status = 200, payload = parsed\<rparr>))))))))"

text \<open>The \<open>catch\<close> block answers every exception with status 500 and one message.\<close>

definition POST :: "world \<Rightarrow> thrown + json \<Rightarrow> gen_request list \<times> response" where
  "POST w req_json =
     (case POST_try w req_json of
        (calls, Inr r) \<Rightarrow> (calls, r)
      | (calls, Inl error) \<Rightarrow>
          (calls, \<lparr>status = 500, payload = error_object unexpected_message\<rparr>))"

text \<open>The type \<open>{ modifiedCode: string; explanation: string }\<close> that the user
  interface gives to a result: an object whose two properties are strings.\<close>

definition is_IterationResult :: "json \<Rightarrow> bool" where
  "is_IterationResult v =
     (case v of
        JObj kvs \<Rightarrow>
          (case (map_of kvs (js ''modifiedCode''), map_of kvs (js ''explanation'')) of
             (Some (JStr m), Some (JStr x)) \<Rightarrow> True
           | _ \<Rightarrow> False)
      | _ \<Rightarrow> False)"

section \<open>Example inputs\<close>

text \<open>
  A world whose credential is set and whose generation call resolves to a given text
  whatever the request, and the same world without the credential. Neither converts a
  value that is not a string.
\<close>

definition constant_model :: "jsstring \<Rightarrow> gen_request \<Rightarrow> thrown + jsstring" where
  "constant_model reply request = Inr reply"

definition no_conversion :: "json \<Rightarrow> thrown + jsstring" where
  "no_conversion v = Inl TypeError"

definition answering :: "jsstring \<Rightarrow> world" where
  "answering reply =
     \<lparr>OPENAI_API_KEY = Some (js ''sk-test''), generateText = constant_model reply,
      ToString_other = no_conversion\<rparr>"

definition unconfigured :: "jsstring \<Rightarrow> world" where
  "unconfigured reply =
     \<lparr>OPENAI_API_KEY = None, generateText = constant_model reply,
      ToString_other = no_conversion\<rparr>"

text \<open>The request body \<open>{"code": ..., "prompt": ...}\<close> of the route, parsed.\<close>

definition request_body :: "jsstring \<Rightarrow> jsstring \<Rightarrow> json" where
  "request_body code prompt = JObj [(js ''code'', JStr code), (js ''prompt'', JStr prompt)]"

text \<open>The texts of the specification's scenarios, and variations of them.\<close>

definition plain_reply :: jsstring where
  "plain_reply =
     js ''{\"modifiedCode\":\"function f(){console.log(1)}\",\"explanation\":\"added log\"}''"

definition embedded_object :: jsstring where
  "embedded_object = js ''{\"modifiedCode\":\"x=1\",\"explanation\":\"set x\"}''"


definition wrapped_reply :: jsstring where
  "wrapped_reply = js ''Sure! '' @ embedded_object @ js '' Hope this helps!''"


definition code_only_reply :: jsstring where
  "code_only_reply = js ''{\"modifiedCode\":\"x=1\"}''"

definition stray_brace_reply :: jsstring where
  "stray_brace_reply = embedded_object @ js '' done }''"

section \<open>JSON.parse on examples\<close>

text \<open>The model of \<open>JSON.parse\<close> on a few texts: nesting, white space, numbers, a
  repeated key, escapes in a string, and texts that JavaScript rejects.\<close>

lemma JSON_parse_values:
  "JSON_parse (js '' [1, -2.5e1, true, null, \"a b\"] '')
     = Inr (JArr [JNum 1, JNum (- 25), JBool True, JNull, JStr (js ''a b'')])"
  "JSON_parse (js ''{\"a\":{\"b\":[]},\"c\":0.5,\"a\":false}'')
     = Inr (JObj [(js ''a'', JBool False), (js ''c'', JNum (1 / 2))])"
  "JSON_parse (js ''\"x'' @ [0x5C] @ js ''n'' @ [0x5C] @ js ''u0041'' @ [0x5C] @ js ''\"\"'')
     = Inr (JStr (js ''x\<newline>A\"''))"
  by code_simp+

lemma JSON_parse_rejects:
  "JSON_parse [] = Inl SyntaxError"
  "JSON_parse (js ''[1,]'') = Inl SyntaxError"
  "JSON_parse (js ''{\"a\":1,}'') = Inl SyntaxError"
  "JSON_parse (js ''{a:1}'') = Inl SyntaxError"
  "JSON_parse (js ''01'') = Inl SyntaxError"
  "JSON_parse (js ''1.'') = Inl SyntaxError"
  "JSON_parse (js ''tru'') = Inl SyntaxError"
  "JSON_parse (js ''1 2'') = Inl SyntaxError"
  "JSON_parse (js ''\"abc'') = Inl SyntaxError"
  "JSON_parse (js ''{} }'') = Inl SyntaxError"
  "JSON_parse (js ''Sure!'') = Inl SyntaxError"
  by code_simp+

section \<open>Properties of the normalizer\<close>



lemma brace_match_span:
  assumes pre: "cu CHR ''{'' \<notin> set pre" and suf: "cu CHR ''}'' \<notin> set suf"
  shows "brace_match (pre @ cu CHR ''{'' # mid @ cu CHR ''}'' # suf)
         = Some (cu CHR ''{'' # mid @ [cu CHR ''}''])"
proof -
  from pre have "dropWhile (\<lambda>c. c \<noteq> cu CHR ''{'') pre = []"
    by auto
  then have open_at: "dropWhile (\<lambda>c. c \<noteq> cu CHR ''{'') (pre @ cu CHR ''{'' # mid @ cu CHR ''}'' # suf)
      = cu CHR ''{'' # mid @ cu CHR ''}'' # suf"
    by (simp add: dropWhile_append3)
  from suf have "dropWhile (\<lambda>c. c \<noteq> cu CHR ''}'') (rev suf) = []"
    by auto
  then have "dropWhile (\<lambda>c. c \<noteq> cu CHR ''}'') (rev (mid @ cu CHR ''}'' # suf))
      = cu CHR ''}'' # rev mid"
    by (simp add: dropWhile_append3)
  with open_at show ?thesis
    by (simp add: brace_match_def)
qed

lemma brace_match_SomeD:
  assumes "brace_match text = Some found"
  shows "\<exists>pre mid suf. text = pre @ cu CHR ''{'' # mid @ cu CHR ''}'' # suf
           \<and> cu CHR ''{'' \<notin> set pre \<and> cu CHR ''}'' \<notin> set suf
           \<and> found = cu CHR ''{'' # mid @ [cu CHR ''}'']"
proof -
  let ?lb = "cu CHR ''{''" and ?rb = "cu CHR ''}''"
  define pre where "pre = takeWhile (\<lambda>c. c \<noteq> ?lb) text"
  from assms obtain b rest where d: "dropWhile (\<lambda>c. c \<noteq> ?lb) text = b # rest"
    by (auto simp: brace_match_def split: list.splits)
  with assms have close: "?rb \<in> set rest"
    and found: "found = b # rev (dropWhile (\<lambda>c. c \<noteq> ?rb) (rev rest))"
    by (auto simp: brace_match_def split: if_splits)
  have b: "b = ?lb"
    using d hd_dropWhile [of "\<lambda>c. c \<noteq> ?lb" "text"] by simp
  have decomp: "text = pre @ ?lb # rest"
    unfolding pre_def using d b takeWhile_dropWhile_id [of "\<lambda>c. c \<noteq> ?lb" "text"] by simp
  have npre: "?lb \<notin> set pre"
    unfolding pre_def by (auto dest: set_takeWhileD)
  define fus where "fus = takeWhile (\<lambda>c. c \<noteq> ?rb) (rev rest)"
  from close have "dropWhile (\<lambda>c. c \<noteq> ?rb) (rev rest) \<noteq> []"
    by auto
  then obtain b' dim where d': "dropWhile (\<lambda>c. c \<noteq> ?rb) (rev rest) = b' # dim"
    by (cases "dropWhile (\<lambda>c. c \<noteq> ?rb) (rev rest)") auto
  have b': "b' = ?rb"
    using d' hd_dropWhile [of "\<lambda>c. c \<noteq> ?rb" "rev rest"] by simp
  have "rev rest = fus @ ?rb # dim"
    unfolding fus_def using d' b' takeWhile_dropWhile_id [of "\<lambda>c. c \<noteq> ?rb" "rev rest"] by simp
  then have "rev (rev rest) = rev (fus @ ?rb # dim)" by simp
  then have rest: "rest = rev dim @ ?rb # rev fus" by simp
  have nsuf: "?rb \<notin> set (rev fus)"
    unfolding fus_def by (auto dest: set_takeWhileD)
  from found d' b b' have "found = ?lb # rev dim @ [?rb]" by simp
  with decomp rest npre nsuf show ?thesis by blast
qed


lemma safeJsonParse_direct:
  "JSON_parse text = Inr v \<Longrightarrow> safeJsonParse text = Inr v"
  by (simp add: safeJsonParse_def)

lemma safeJsonParse_fallback:
  "JSON_parse text = Inl e \<Longrightarrow>
   safeJsonParse text =
     (case brace_match text of
        None \<Rightarrow> Inr (raw_response text)
      | Some found \<Rightarrow>
          (case JSON_parse found of
             Inr v \<Rightarrow> Inr v
           | Inl e' \<Rightarrow> Inr (raw_response text)))"
  by (simp add: safeJsonParse_def split: option.splits sum.splits)


subsection \<open>Step 1: the direct parse\<close>

text \<open>
  C4 (as the code has it). In step 1 the normalizer returns the direct parse of the whole
  text whenever that parse succeeds, whatever kind of JSON value it yields: an object, an
  array, a string, a number, a boolean or \<open>null\<close>. There is no test that the value is
  an object.
\<close>

theorem direct_parse_used_whatever_the_value:
  assumes "JSON_parse text = Inr v"
  shows "safeJsonParse text = Inr v"
  using assms by (rule safeJsonParse_direct)

text \<open>The theorem at the text \<open>[1]\<close>, which parses to an array.\<close>

theorem direct_parse_used_whatever_the_value_witness:
  "JSON_parse (js ''[1]'') = Inr (JArr [JNum 1]) \<and> safeJsonParse (js ''[1]'') = Inr (JArr [JNum 1])"
proof -
  have p: "JSON_parse (js ''[1]'') = Inr (JArr [JNum 1])"
    by code_simp
  from p direct_parse_used_whatever_the_value [OF p] show ?thesis
    by (rule conjI)
qed

text \<open>Against C4 as stated: the text \<open>123\<close> parses to a number, not an object, and
  that number is the normalizer's result.\<close>

theorem number_text_returned_as_number:
  "JSON_parse (js ''123'') = Inr (JNum 123) \<and> safeJsonParse (js ''123'') = Inr (JNum 123)"
  by code_simp

lemma raw_response_explicit:
  "raw_response text =
     JObj [(js ''modifiedCode'', JStr text),
           (js ''explanation'',
            JStr (js ''The AI response couldn't be parsed as JSON. Showing raw response instead.''))]"
  by (simp add: raw_response_def parse_failed_message_def)

subsection \<open>The normalizer never throws\<close>

text \<open>
  C3 (as the code has it). For every input string \<open>safeJsonParse\<close> returns a value and
  throws nothing. The value is the direct parse of the text when that succeeds; else the
  parse of the brace span, when there is a span and it parses; else the object whose
  \<open>modifiedCode\<close> is the text and whose \<open>explanation\<close> is the fixed diagnostic.
  That last object is an object with two string fields; a parsed value is returned as it
  is, whatever its shape.
\<close>

theorem safeJsonParse_never_throws:
  "safeJsonParse text =
     Inr (case JSON_parse text of
            Inr direct \<Rightarrow> direct
          | Inl e \<Rightarrow>
              (case brace_match text of
                 None \<Rightarrow>
                   JObj [(js ''modifiedCode'', JStr text),
                         (js ''explanation'',
                          JStr (js ''The AI response couldn't be parsed as JSON. Showing raw response instead.''))]
               | Some found \<Rightarrow>
                   (case JSON_parse found of
                      Inr inner \<Rightarrow> inner
                    | Inl e' \<Rightarrow>
                        JObj [(js ''modifiedCode'', JStr text),
                              (js ''explanation'',
                               JStr (js ''The AI response couldn't be parsed as JSON. Showing raw response instead.''))])))
   \<and> is_IterationResult
        (JObj [(js ''modifiedCode'', JStr text),
               (js ''explanation'',
                JStr (js ''The AI response couldn't be parsed as JSON. Showing raw response instead.''))])"
proof
  show "safeJsonParse text =
     Inr (case JSON_parse text of
            Inr direct \<Rightarrow> direct
          | Inl e \<Rightarrow>
              (case brace_match text of
                 None \<Rightarrow>
                   JObj [(js ''modifiedCode'', JStr text),
                         (js ''explanation'',
                          JStr (js ''The AI response couldn't be parsed as JSON. Showing raw response instead.''))]
               | Some found \<Rightarrow>
                   (case JSON_parse found of
                      Inr inner \<Rightarrow> inner
                    | Inl e' \<Rightarrow>
                        JObj [(js ''modifiedCode'', JStr text),
                              (js ''explanation'',
                               JStr (js ''The AI response couldn't be parsed as JSON. Showing raw response instead.''))])))"
    unfolding raw_response_explicit [symmetric]
    by (simp add: safeJsonParse_def split: sum.splits option.splits)
  have "map_of [(js ''modifiedCode'', JStr text),
               (js ''explanation'',
                JStr (js ''The AI response couldn't be parsed as JSON. Showing raw response instead.''))]
          (js ''explanation'')
        = Some (JStr (js ''The AI response couldn't be parsed as JSON. Showing raw response instead.''))"
    by (simp add: js_def cu_def)
  then show "is_IterationResult
        (JObj [(js ''modifiedCode'', JStr text),
               (js ''explanation'',
                JStr (js ''The AI response couldn't be parsed as JSON. Showing raw response instead.''))])"
    by (simp add: is_IterationResult_def)
qed

text \<open>The theorem on three texts, one for each step: \<open>[1]\<close> parses directly,
  \<open>wrapped_reply\<close> through its brace span, \<open>hi\<close> not at all.\<close>

theorem safeJsonParse_never_throws_witness:
  "safeJsonParse (js ''[1]'') = Inr (JArr [JNum 1])
   \<and> safeJsonParse wrapped_reply
       = Inr (JObj [(js ''modifiedCode'', JStr (js ''x=1'')), (js ''explanation'', JStr (js ''set x''))])
   \<and> safeJsonParse (js ''hi'')
       = Inr (JObj [(js ''modifiedCode'', JStr (js ''hi'')),
                    (js ''explanation'',
                     JStr (js ''The AI response couldn't be parsed as JSON. Showing raw response instead.''))])"
proof -
  have direct: "JSON_parse (js ''[1]'') = Inr (JArr [JNum 1])"
    by code_simp
  have wrapped: "JSON_parse wrapped_reply = Inl SyntaxError"
    "brace_match wrapped_reply = Some embedded_object"
    "JSON_parse embedded_object
     = Inr (JObj [(js ''modifiedCode'', JStr (js ''x=1'')), (js ''explanation'', JStr (js ''set x''))])"
    by code_simp+
  have prose: "JSON_parse (js ''hi'') = Inl SyntaxError" "brace_match (js ''hi'') = None"
    by code_simp+
  from safeJsonParse_never_throws [of "js ''[1]''"] direct
  have 1: "safeJsonParse (js ''[1]'') = Inr (JArr [JNum 1])"
    by simp
  from safeJsonParse_never_throws [of wrapped_reply] wrapped
  have 2: "safeJsonParse wrapped_reply
       = Inr (JObj [(js ''modifiedCode'', JStr (js ''x=1'')), (js ''explanation'', JStr (js ''set x''))])"
    by simp
  from safeJsonParse_never_throws [of "js ''hi''"] prose
  have 3: "safeJsonParse (js ''hi'')
       = Inr (JObj [(js ''modifiedCode'', JStr (js ''hi'')),
                    (js ''explanation'',
                     JStr (js ''The AI response couldn't be parsed as JSON. Showing raw response instead.''))])"
    by simp
  from 1 2 3 show ?thesis
    by (intro conjI)
qed

text \<open>Against C3 as stated: the text \<open>{}\<close> is returned as the empty object, which has
  neither field.\<close>

theorem empty_object_is_no_IterationResult:
  "safeJsonParse (js ''{}'') = Inr (JObj []) \<and> \<not> is_IterationResult (JObj [])"
  by code_simp

subsection \<open>Step 3: the raw text\<close>





subsection \<open>Step 2: the brace span\<close>

lemma embedded_object_parses:
  "JSON_parse embedded_object
   = Inr (JObj [(js ''modifiedCode'', JStr (js ''x=1'')), (js ''explanation'', JStr (js ''set x''))])"
  by code_simp

text \<open>
  C9. When the direct parse fails, step 2 parses exactly the span that
  \<open>brace_match\<close> finds, and that span runs from the first \<open>{\<close> of the text to its
  last \<open>}\<close>. Consequently a valid two-field object followed by prose with a stray
  \<open>}\<close> is not recovered: for the text
  \<open>{"modifiedCode":"x=1","explanation":"set x"} done }\<close> the span is the whole text, it
  does not parse, and the normalizer returns the object whose \<open>modifiedCode\<close> is that
  whole text and whose \<open>explanation\<close> is the fixed diagnostic, not the embedded
  object.
\<close>

theorem step_two_parses_greedy_span:
  "(JSON_parse text = Inl e \<longrightarrow>
      safeJsonParse text =
        (case brace_match text of
           None \<Rightarrow>
             Inr (JObj [(js ''modifiedCode'', JStr text),
                        (js ''explanation'',
                         JStr (js ''The AI response couldn't be parsed as JSON. Showing raw response instead.''))])
         | Some found \<Rightarrow>
             (case JSON_parse found of
                Inr v \<Rightarrow> Inr v
              | Inl e' \<Rightarrow>
                  Inr (JObj [(js ''modifiedCode'', JStr text),
                             (js ''explanation'',
                              JStr (js ''The AI response couldn't be parsed as JSON. Showing raw response instead.''))]))))
   \<and> (brace_match text = Some found \<longleftrightarrow>
        (\<exists>pre mid suf. text = pre @ cu CHR ''{'' # mid @ cu CHR ''}'' # suf
           \<and> cu CHR ''{'' \<notin> set pre \<and> cu CHR ''}'' \<notin> set suf
           \<and> found = cu CHR ''{'' # mid @ [cu CHR ''}'']))
   \<and> embedded_object = js ''{\"modifiedCode\":\"x=1\",\"explanation\":\"set x\"}''
   \<and> JSON_parse embedded_object
       = Inr (JObj [(js ''modifiedCode'', JStr (js ''x=1'')), (js ''explanation'', JStr (js ''set x''))])
   \<and> stray_brace_reply = embedded_object @ js '' done }''
   \<and> JSON_parse stray_brace_reply = Inl SyntaxError
   \<and> brace_match stray_brace_reply = Some stray_brace_reply
   \<and> safeJsonParse stray_brace_reply
       = Inr (JObj [(js ''modifiedCode'', JStr stray_brace_reply),
                    (js ''explanation'',
                     JStr (js ''The AI response couldn't be parsed as JSON. Showing raw response instead.''))])
   \<and> safeJsonParse stray_brace_reply \<noteq> JSON_parse embedded_object"
proof (intro conjI)
  show "JSON_parse text = Inl e \<longrightarrow>
      safeJsonParse text =
        (case brace_match text of
           None \<Rightarrow>
             Inr (JObj [(js ''modifiedCode'', JStr text),
                        (js ''explanation'',
                         JStr (js ''The AI response couldn't be parsed as JSON. Showing raw response instead.''))])
         | Some found \<Rightarrow>
             (case JSON_parse found of
                Inr v \<Rightarrow> Inr v
              | Inl e' \<Rightarrow>
                  Inr (JObj [(js ''modifiedCode'', JStr text),
                             (js ''explanation'',
                              JStr (js ''The AI response couldn't be parsed as JSON. Showing raw response instead.''))])))"
    unfolding raw_response_explicit [symmetric]
    by (simp add: safeJsonParse_fallback)
  show "brace_match text = Some found \<longleftrightarrow>
        (\<exists>pre mid suf. text = pre @ cu CHR ''{'' # mid @ cu CHR ''}'' # suf
           \<and> cu CHR ''{'' \<notin> set pre \<and> cu CHR ''}'' \<notin> set suf
           \<and> found = cu CHR ''{'' # mid @ [cu CHR ''}''])"
    using brace_match_SomeD [of "text" found] brace_match_span by blast
  show "embedded_object = js ''{\"modifiedCode\":\"x=1\",\"explanation\":\"set x\"}''"
    by (simp add: embedded_object_def)
  show "JSON_parse embedded_object
       = Inr (JObj [(js ''modifiedCode'', JStr (js ''x=1'')), (js ''explanation'', JStr (js ''set x''))])"
    by (rule embedded_object_parses)
  show "stray_brace_reply = embedded_object @ js '' done }''"
    by (simp add: stray_brace_reply_def)
  show "JSON_parse stray_brace_reply = Inl SyntaxError"
    by code_simp
  show "brace_match stray_brace_reply = Some stray_brace_reply"
    by code_simp
  have raw: "safeJsonParse stray_brace_reply = Inr (raw_response stray_brace_reply)"
    by code_simp
  then show "safeJsonParse stray_brace_reply
       = Inr (JObj [(js ''modifiedCode'', JStr stray_brace_reply),
                    (js ''explanation'',
                     JStr (js ''The AI response couldn't be parsed as JSON. Showing raw response instead.''))])"
    by (simp only: raw_response_explicit)
  show "safeJsonParse stray_brace_reply \<noteq> JSON_parse embedded_object"
    by code_simp
qed

text \<open>The theorem at \<open>stray_brace_reply\<close>: the direct parse fails, the span is the
  whole text, and the result is the raw-text object with the whole text in it.\<close>

theorem step_two_parses_greedy_span_witness:
  "JSON_parse stray_brace_reply = Inl SyntaxError
   \<and> brace_match stray_brace_reply = Some stray_brace_reply
   \<and> safeJsonParse stray_brace_reply
       = Inr (JObj [(js ''modifiedCode'', JStr stray_brace_reply),
                    (js ''explanation'',
                     JStr (js ''The AI response couldn't be parsed as JSON. Showing raw response instead.''))])"
proof -
  note inst = step_two_parses_greedy_span [of stray_brace_reply SyntaxError stray_brace_reply]
  from inst have fails: "JSON_parse stray_brace_reply = Inl SyntaxError"
    and found: "brace_match stray_brace_reply = Some stray_brace_reply"
    by blast+
  from inst have "JSON_parse stray_brace_reply = Inl SyntaxError \<longrightarrow>
      safeJsonParse stray_brace_reply =
        (case brace_match stray_brace_reply of
           None \<Rightarrow>
             Inr (JObj [(js ''modifiedCode'', JStr stray_brace_reply),
                        (js ''explanation'',
                         JStr (js ''The AI response couldn't be parsed as JSON. Showing raw response instead.''))])
         | Some found \<Rightarrow>
             (case JSON_parse found of
                Inr v \<Rightarrow> Inr v
              | Inl e' \<Rightarrow>
                  Inr (JObj [(js ''modifiedCode'', JStr stray_brace_reply),
                             (js ''explanation'',
                              JStr (js ''The AI response couldn't be parsed as JSON. Showing raw response instead.''))])))"
    by blast
  with fails found
  have "safeJsonParse stray_brace_reply
       = Inr (JObj [(js ''modifiedCode'', JStr stray_brace_reply),
                    (js ''explanation'',
                     JStr (js ''The AI response couldn't be parsed as JSON. Showing raw response instead.''))])"
    by simp
  with fails found show ?thesis
    by (intro conjI)
qed

section \<open>Properties of the orchestrator\<close>

lemma no_code_placeholder_nonempty: "no_code_placeholder \<noteq> []"
  by (simp add: no_code_placeholder_def js_def)

lemma incomplete_message_nonempty: "incomplete_message \<noteq> []"
  by (simp add: incomplete_message_def js_def)

lemma result_of_parsed_null: "result_of_parsed text JNull = Inl TypeError"
  by (simp add: result_of_parsed_def fields_missing_def)

lemma get_prop_not_null:
  "parsed \<noteq> JNull \<Longrightarrow> \<exists>p. get_prop parsed name = Inr p"
  by (cases parsed) auto

lemma result_of_parsed_not_null:
  assumes m: "get_prop parsed (js ''modifiedCode'') = Inr m"
    and x: "get_prop parsed (js ''explanation'') = Inr x"
  shows "result_of_parsed text parsed =
     Inr \<lparr>modifiedCode =
            (if truthy_opt m then m
             else if text \<noteq> [] then Some (JStr text)
             else Some (JStr no_code_placeholder)),
          explanation = (if truthy_opt x then x else Some (JStr incomplete_message))\<rparr>"
  using m x
  by (simp add: result_of_parsed_def fields_missing_def js_not_def or_else_def)

lemma iterateCode_try_parsed:
  assumes "\<not> not_str (OPENAI_API_KEY w)"
    and "generateText w (request_for code prompt) = Inr text"
    and "safeJsonParse text = Inr parsed"
  shows "iterateCode_try w code prompt = ([request_for code prompt], result_of_parsed text parsed)"
  using assms by (simp add: iterateCode_try_def)

lemma iterateCode_returns:
  assumes "\<not> not_str (OPENAI_API_KEY w)"
    and "generateText w (request_for code prompt) = Inr text"
    and "safeJsonParse text = Inr parsed"
    and "result_of_parsed text parsed = Inr r"
  shows "iterateCode w code prompt = ([request_for code prompt], Inr r)"
  using assms by (simp add: iterateCode_def iterateCode_try_parsed)

lemma iterateCode_null:
  assumes "\<not> not_str (OPENAI_API_KEY w)"
    and "generateText w (request_for code prompt) = Inr text"
    and "safeJsonParse text = Inr JNull"
  shows "iterateCode w code prompt = ([request_for code prompt], Inl TypeError)"
  using assms by (simp add: iterateCode_def iterateCode_try_parsed result_of_parsed_null)

lemma answering_configured: "\<not> not_str (OPENAI_API_KEY (answering reply))"
  by (simp add: answering_def js_def)

lemma answering_generates: "generateText (answering reply) request = Inr reply"
  by (simp add: answering_def constant_model_def)

lemma result_of_parsed_populated:
  assumes "parsed \<noteq> JNull"
  shows "\<exists>m x r. get_prop parsed (js ''modifiedCode'') = Inr m
           \<and> get_prop parsed (js ''explanation'') = Inr x
           \<and> result_of_parsed text parsed = Inr r
           \<and> truthy_opt (modifiedCode r) \<and> truthy_opt (explanation r)
           \<and> modifiedCode r =
               (if truthy_opt m then m
                else if text \<noteq> [] then Some (JStr text)
                else Some (JStr no_code_placeholder))
           \<and> explanation r = (if truthy_opt x then x else Some (JStr incomplete_message))"
proof -
  from assms obtain m where m: "get_prop parsed (js ''modifiedCode'') = Inr m"
    using get_prop_not_null by blast
  from assms obtain x where x: "get_prop parsed (js ''explanation'') = Inr x"
    using get_prop_not_null by blast
  let ?r = "\<lparr>modifiedCode =
            (if truthy_opt m then m
             else if text \<noteq> [] then Some (JStr text)
             else Some (JStr no_code_placeholder)),
          explanation = (if truthy_opt x then x else Some (JStr incomplete_message))\<rparr>"
  have r: "result_of_parsed text parsed = Inr ?r"
    using m x by (rule result_of_parsed_not_null)
  have "truthy_opt (modifiedCode ?r)"
    by (simp add: no_code_placeholder_nonempty)
  moreover have "truthy_opt (explanation ?r)"
    by (simp add: incomplete_message_nonempty)
  ultimately show ?thesis
    using m x r by (intro exI [of _ m] exI [of _ x] exI [of _ ?r]) simp
qed

lemma POST_try_parsed:
  assumes "\<not> not_str (OPENAI_API_KEY w)"
    and "get_prop body (js ''code'') = Inr cv" "truthy_opt cv"
    and "get_prop body (js ''prompt'') = Inr pv" "truthy_opt pv"
    and "to_string w cv = Inr c" "to_string w pv = Inr p"
    and "generateText w (request_for c p) = Inr text"
    and "safeJsonParse text = Inr parsed"
  shows "POST w (Inr body) = ([request_for c p], \<lparr>status = 200, payload = parsed\<rparr>)"
  using assms by (simp add: POST_def POST_try_def js_not_def)

lemma POST_rejects_missing_input:
  assumes "get_prop body (js ''code'') = Inr cv"
    and "get_prop body (js ''prompt'') = Inr pv"
    and "js_not cv \<or> js_not pv"
  shows "POST w (Inr body) = ([], \<lparr>status = 400, payload = error_object required_message\<rparr>)"
  using assms by (auto simp: POST_def POST_try_def)

lemma POST_not_configured:
  assumes "not_str (OPENAI_API_KEY w)"
    and "get_prop body (js ''code'') = Inr cv" "truthy_opt cv"
    and "get_prop body (js ''prompt'') = Inr pv" "truthy_opt pv"
  shows "POST w (Inr body) = ([], \<lparr>status = 500, payload = error_object not_configured_message\<rparr>)"
  using assms by (simp add: POST_def POST_try_def js_not_def)

lemma POST_no_call_without_credential:
  assumes "not_str (OPENAI_API_KEY w)"
  shows "fst (POST w req_json) = []"
  using assms
  by (simp add: POST_def POST_try_def split: sum.splits prod.splits)

lemma iterateCode_not_configured:
  assumes "not_str (OPENAI_API_KEY w)"
  shows "iterateCode w code prompt = ([], Inl (Error not_configured_message))"
  using assms by (simp add: iterateCode_def iterateCode_try_def)

lemma request_body_props:
  "get_prop (request_body code prompt) (js ''code'') = Inr (Some (JStr code))"
  "get_prop (request_body code prompt) (js ''prompt'') = Inr (Some (JStr prompt))"
  by (simp_all add: request_body_def js_def cu_def)

subsection \<open>A reply that is the literal null\<close>

text \<open>
  C10. For a raw text that parses directly as the JSON literal \<open>null\<close>, such as the
  text \<open>null\<close> itself, \<open>safeJsonParse\<close> returns \<open>null\<close>, and
  \<open>iterateCode\<close> then throws a \<open>TypeError\<close> when it reads the fields of the
  parsed value: the call fails after its one generation call and returns no result.
\<close>

theorem null_reply_raises_TypeError:
  assumes "JSON_parse text = Inr JNull"
    and "\<not> not_str (OPENAI_API_KEY w)"
    and "generateText w (request_for code prompt) = Inr text"
  shows "safeJsonParse text = Inr JNull
    \<and> iterateCode w code prompt = ([request_for code prompt], Inl TypeError)"
proof -
  from assms(1) have "safeJsonParse text = Inr JNull"
    by (rule safeJsonParse_direct)
  with assms(2,3) show ?thesis
    by (simp add: iterateCode_null)
qed

text \<open>The theorem at the reply \<open>null\<close>, in a world with a credential.\<close>

theorem null_reply_raises_TypeError_witness:
  "JSON_parse (js ''null'') = Inr JNull
   \<and> \<not> not_str (OPENAI_API_KEY (answering (js ''null'')))
   \<and> generateText (answering (js ''null''))
         (request_for (js ''function f(){}'') (js ''add logging'')) = Inr (js ''null'')
   \<and> safeJsonParse (js ''null'') = Inr JNull
   \<and> iterateCode (answering (js ''null'')) (js ''function f(){}'') (js ''add logging'')
       = ([request_for (js ''function f(){}'') (js ''add logging'')], Inl TypeError)"
proof -
  have p: "JSON_parse (js ''null'') = Inr JNull"
    by code_simp
  from null_reply_raises_TypeError [OF p answering_configured answering_generates] p
    answering_configured [of "js ''null''"]
    answering_generates [of "js ''null''" "request_for (js ''function f(){}'') (js ''add logging'')"]
  show ?thesis
    by simp
qed

subsection \<open>Both fields populated\<close>

text \<open>
  C1 (as the code has it). Whenever the parsed value is not \<open>null\<close>,
  \<open>iterateCode\<close> returns a result whose \<open>modifiedCode\<close> and
  \<open>explanation\<close> are both truthy: a falsy or missing \<open>modifiedCode\<close> is
  replaced by the raw text, or by the fixed placeholder comment when the raw text is
  empty, and a falsy or missing \<open>explanation\<close> by the fixed incomplete-response
  message; a truthy field is kept. The HTTP route substitutes nothing: its payload is
  the parsed value as it is.
\<close>

theorem iterateCode_result_populated:
  assumes "\<not> not_str (OPENAI_API_KEY w)"
    and "safeJsonParse text = Inr parsed"
  shows "(generateText w (request_for code prompt) = Inr text \<and> parsed \<noteq> JNull \<longrightarrow>
           (\<exists>m x r. get_prop parsed (js ''modifiedCode'') = Inr m
              \<and> get_prop parsed (js ''explanation'') = Inr x
              \<and> iterateCode w code prompt = ([request_for code prompt], Inr r)
              \<and> truthy_opt (modifiedCode r) \<and> truthy_opt (explanation r)
              \<and> modifiedCode r =
                  (if truthy_opt m then m
                   else if text \<noteq> [] then Some (JStr text)
                   else Some (JStr no_code_placeholder))
              \<and> explanation r = (if truthy_opt x then x else Some (JStr incomplete_message))))
     \<and> (get_prop body (js ''code'') = Inr cv \<and> truthy_opt cv
         \<and> get_prop body (js ''prompt'') = Inr pv \<and> truthy_opt pv
         \<and> to_string w cv = Inr c \<and> to_string w pv = Inr p
         \<and> generateText w (request_for c p) = Inr text \<longrightarrow>
           POST w (Inr body) = ([request_for c p], \<lparr>status = 200, payload = parsed\<rparr>))"
proof (intro conjI impI)
  assume "generateText w (request_for code prompt) = Inr text \<and> parsed \<noteq> JNull"
  then have gen: "generateText w (request_for code prompt) = Inr text" and nn: "parsed \<noteq> JNull"
    by simp_all
  from result_of_parsed_populated [OF nn, of "text"] obtain m x r where
    props: "get_prop parsed (js ''modifiedCode'') = Inr m" "get_prop parsed (js ''explanation'') = Inr x"
    and r: "result_of_parsed text parsed = Inr r"
    and filled: "truthy_opt (modifiedCode r)" "truthy_opt (explanation r)"
      "modifiedCode r =
         (if truthy_opt m then m
          else if text \<noteq> [] then Some (JStr text)
          else Some (JStr no_code_placeholder))"
      "explanation r = (if truthy_opt x then x else Some (JStr incomplete_message))"
    by blast
  from assms(1) gen assms(2) r
  have "iterateCode w code prompt = ([request_for code prompt], Inr r)"
    by (rule iterateCode_returns)
  with props filled
  show "\<exists>m x r. get_prop parsed (js ''modifiedCode'') = Inr m
              \<and> get_prop parsed (js ''explanation'') = Inr x
              \<and> iterateCode w code prompt = ([request_for code prompt], Inr r)
              \<and> truthy_opt (modifiedCode r) \<and> truthy_opt (explanation r)
              \<and> modifiedCode r =
                  (if truthy_opt m then m
                   else if text \<noteq> [] then Some (JStr text)
                   else Some (JStr no_code_placeholder))
              \<and> explanation r = (if truthy_opt x then x else Some (JStr incomplete_message))"
    by blast
next
  assume "get_prop body (js ''code'') = Inr cv \<and> truthy_opt cv
         \<and> get_prop body (js ''prompt'') = Inr pv \<and> truthy_opt pv
         \<and> to_string w cv = Inr c \<and> to_string w pv = Inr p
         \<and> generateText w (request_for c p) = Inr text"
  with assms show "POST w (Inr body) = ([request_for c p], \<lparr>status = 200, payload = parsed\<rparr>)"
    by (simp add: POST_try_parsed)
qed

text \<open>The theorem at the reply \<open>{}\<close>: the server action fills both fields in, the
  route answers with the empty object.\<close>

theorem iterateCode_result_populated_witness:
  "\<not> not_str (OPENAI_API_KEY (answering (js ''{}'')))
   \<and> safeJsonParse (js ''{}'') = Inr (JObj [])
   \<and> iterateCode (answering (js ''{}'')) (js ''function f(){}'') (js ''add logging'')
       = ([request_for (js ''function f(){}'') (js ''add logging'')],
          Inr \<lparr>modifiedCode = Some (JStr (js ''{}'')),
               explanation = Some (JStr incomplete_message)\<rparr>)
   \<and> POST (answering (js ''{}'')) (Inr (request_body (js ''function f(){}'') (js ''add logging'')))
       = ([request_for (js ''function f(){}'') (js ''add logging'')],
          \<lparr>status = 200, payload = JObj []\<rparr>)"
proof -
  let ?w = "answering (js ''{}'')" and ?code = "js ''function f(){}''" and ?prompt = "js ''add logging''"
  have parsed: "safeJsonParse (js ''{}'') = Inr (JObj [])"
    by code_simp
  have nonempty: "js ''{}'' \<noteq> []" "?code \<noteq> []" "?prompt \<noteq> []"
    by (simp_all add: js_def)
  note inst = iterateCode_result_populated [OF answering_configured [of "js ''{}''"] parsed,
      where code = ?code and prompt = ?prompt and body = "request_body ?code ?prompt"
        and cv = "Some (JStr ?code)" and pv = "Some (JStr ?prompt)" and c = ?code and p = ?prompt]
  from inst obtain m x r where
    "get_prop (JObj []) (js ''modifiedCode'') = Inr m"
    "get_prop (JObj []) (js ''explanation'') = Inr x"
    "iterateCode ?w ?code ?prompt = ([request_for ?code ?prompt], Inr r)"
    "modifiedCode r =
       (if truthy_opt m then m
        else if js ''{}'' \<noteq> [] then Some (JStr (js ''{}''))
        else Some (JStr no_code_placeholder))"
    "explanation r = (if truthy_opt x then x else Some (JStr incomplete_message))"
    by (auto simp: answering_generates)
  then have action: "iterateCode ?w ?code ?prompt
       = ([request_for ?code ?prompt],
          Inr \<lparr>modifiedCode = Some (JStr (js ''{}'')),
               explanation = Some (JStr incomplete_message)\<rparr>)"
    using nonempty by (cases r) auto
  from inst have route: "POST ?w (Inr (request_body ?code ?prompt))
       = ([request_for ?code ?prompt], \<lparr>status = 200, payload = JObj []\<rparr>)"
    using nonempty by (simp add: request_body_props answering_generates)
  from answering_configured parsed action route show ?thesis
    by simp
qed

text \<open>Against C1 as stated: the route answers the reply \<open>code_only_reply\<close> with
  status 200 and a payload that has no \<open>explanation\<close>.\<close>

theorem route_payload_keeps_missing_field:
  "POST (answering code_only_reply)
        (Inr (request_body (js ''function f(){}'') (js ''add logging'')))
     = ([request_for (js ''function f(){}'') (js ''add logging'')],
        \<lparr>status = 200, payload = JObj [(js ''modifiedCode'', JStr (js ''x=1''))]\<rparr>)
   \<and> get_prop (JObj [(js ''modifiedCode'', JStr (js ''x=1''))]) (js ''explanation'') = Inr None
   \<and> \<not> truthy_opt None"
proof -
  have parsed: "safeJsonParse code_only_reply
      = Inr (JObj [(js ''modifiedCode'', JStr (js ''x=1''))])"
    by code_simp
  have nonempty: "js ''function f(){}'' \<noteq> []" "js ''add logging'' \<noteq> []"
    by (simp_all add: js_def)
  have "POST (answering code_only_reply)
        (Inr (request_body (js ''function f(){}'') (js ''add logging'')))
     = ([request_for (js ''function f(){}'') (js ''add logging'')],
        \<lparr>status = 200, payload = JObj [(js ''modifiedCode'', JStr (js ''x=1''))]\<rparr>)"
    using nonempty
    by (intro POST_try_parsed [OF answering_configured request_body_props(1) _
          request_body_props(2) _ _ _ answering_generates parsed]) simp_all
  moreover have "get_prop (JObj [(js ''modifiedCode'', JStr (js ''x=1''))]) (js ''explanation'') = Inr None"
    by code_simp
  ultimately show ?thesis
    by simp
qed

subsection \<open>A reply that is the requested object\<close>

text \<open>
  C6. For every raw text that is a valid JSON object with \<open>modifiedCode\<close> and
  \<open>explanation\<close> both non-empty strings, the normalizer returns the parsed object and
  \<open>iterateCode\<close> returns exactly those two field values, with no substitution.
\<close>

theorem json_object_fields_returned_unchanged:
  assumes "JSON_parse text = Inr (JObj kvs)"
    and "map_of kvs (js ''modifiedCode'') = Some (JStr a)" and "a \<noteq> []"
    and "map_of kvs (js ''explanation'') = Some (JStr b)" and "b \<noteq> []"
    and "\<not> not_str (OPENAI_API_KEY w)"
    and "generateText w (request_for code prompt) = Inr text"
  shows "safeJsonParse text = Inr (JObj kvs)
    \<and> iterateCode w code prompt
        = ([request_for code prompt],
           Inr \<lparr>modifiedCode = Some (JStr a), explanation = Some (JStr b)\<rparr>)"
proof -
  from assms(1) have parsed: "safeJsonParse text = Inr (JObj kvs)"
    by (rule safeJsonParse_direct)
  have "result_of_parsed text (JObj kvs)
      = Inr \<lparr>modifiedCode = Some (JStr a), explanation = Some (JStr b)\<rparr>"
    using assms(2-5) result_of_parsed_not_null [of "JObj kvs" "Some (JStr a)" "Some (JStr b)" "text"]
    by simp
  with assms(6,7) parsed show ?thesis
    by (simp add: iterateCode_returns)
qed

text \<open>The theorem at the specification's scenario: code \<open>function f(){}\<close>, prompt
  \<open>add logging\<close>, reply \<open>plain_reply\<close>.\<close>

theorem json_object_fields_returned_unchanged_witness:
  "JSON_parse plain_reply
     = Inr (JObj [(js ''modifiedCode'', JStr (js ''function f(){console.log(1)}'')),
                  (js ''explanation'', JStr (js ''added log''))])
   \<and> \<not> not_str (OPENAI_API_KEY (answering plain_reply))
   \<and> generateText (answering plain_reply)
         (request_for (js ''function f(){}'') (js ''add logging'')) = Inr plain_reply
   \<and> safeJsonParse plain_reply
     = Inr (JObj [(js ''modifiedCode'', JStr (js ''function f(){console.log(1)}'')),
                  (js ''explanation'', JStr (js ''added log''))])
   \<and> iterateCode (answering plain_reply) (js ''function f(){}'') (js ''add logging'')
     = ([request_for (js ''function f(){}'') (js ''add logging'')],
        Inr \<lparr>modifiedCode = Some (JStr (js ''function f(){console.log(1)}'')),
             explanation = Some (JStr (js ''added log''))\<rparr>)"
proof -
  let ?kvs = "[(js ''modifiedCode'', JStr (js ''function f(){console.log(1)}'')),
               (js ''explanation'', JStr (js ''added log''))]"
  have p: "JSON_parse plain_reply = Inr (JObj ?kvs)"
    by code_simp
  have m: "map_of ?kvs (js ''modifiedCode'') = Some (JStr (js ''function f(){console.log(1)}''))"
    by simp
  have x: "map_of ?kvs (js ''explanation'') = Some (JStr (js ''added log''))"
    by code_simp
  have ne: "js ''function f(){console.log(1)}'' \<noteq> []" "js ''added log'' \<noteq> []"
    by (simp_all add: js_def)
  from json_object_fields_returned_unchanged
    [OF p m ne(1) x ne(2) answering_configured answering_generates,
     of "js ''function f(){}''" "js ''add logging''"]
    p answering_configured [of plain_reply]
    answering_generates [of plain_reply "request_for (js ''function f(){}'') (js ''add logging'')"]
  show ?thesis
    by simp
qed

subsection \<open>A reply that wraps the object in prose\<close>






subsection \<open>A missing credential\<close>

lemma unconfigured_has_no_key: "not_str (OPENAI_API_KEY (unconfigured reply))"
  by (simp add: unconfigured_def)

text \<open>
  C8 (as the code has it). When the credential is absent (not set, or empty),
  \<open>iterateCode\<close> fails with the fixed configuration message and makes no generation
  call, whatever its arguments. The HTTP route makes no generation call either, whatever
  the request; it answers with the configuration message and status 500 when the request
  has passed the input check that comes first, that is when \<open>code\<close> and
  \<open>prompt\<close> are both truthy. The configuration message differs from both generic
  failure messages.
\<close>

theorem missing_credential_reported:
  assumes "not_str (OPENAI_API_KEY w)"
  shows "iterateCode w code prompt = ([], Inl (Error not_configured_message))
    \<and> fst (POST w req_json) = []
    \<and> (get_prop body (js ''code'') = Inr cv \<and> truthy_opt cv
        \<and> get_prop body (js ''prompt'') = Inr pv \<and> truthy_opt pv \<longrightarrow>
          POST w (Inr body)
          = ([], \<lparr>status = 500, payload = error_object not_configured_message\<rparr>))
    \<and> not_configured_message \<noteq> failed_request_message
    \<and> not_configured_message \<noteq> unexpected_message"
proof (intro conjI impI)
  from assms show "iterateCode w code prompt = ([], Inl (Error not_configured_message))"
    by (rule iterateCode_not_configured)
  from assms show "fst (POST w req_json) = []"
    by (rule POST_no_call_without_credential)
  show "not_configured_message \<noteq> failed_request_message"
    by (simp add: not_configured_message_def failed_request_message_def js_def cu_def)
  show "not_configured_message \<noteq> unexpected_message"
    by (simp add: not_configured_message_def unexpected_message_def js_def cu_def)
next
  assume "get_prop body (js ''code'') = Inr cv \<and> truthy_opt cv
        \<and> get_prop body (js ''prompt'') = Inr pv \<and> truthy_opt pv"
  with assms show "POST w (Inr body)
          = ([], \<lparr>status = 500, payload = error_object not_configured_message\<rparr>)"
    by (simp add: POST_not_configured)
qed

text \<open>The theorem in a world without the credential, at the scenario's code and prompt.\<close>

theorem missing_credential_reported_witness:
  "not_str (OPENAI_API_KEY (unconfigured plain_reply))
   \<and> iterateCode (unconfigured plain_reply) (js ''function f(){}'') (js ''add logging'')
       = ([], Inl (Error not_configured_message))
   \<and> POST (unconfigured plain_reply) (Inr (request_body (js ''function f(){}'') (js ''add logging'')))
       = ([], \<lparr>status = 500, payload = error_object not_configured_message\<rparr>)"
proof -
  have ne: "js ''function f(){}'' \<noteq> []" "js ''add logging'' \<noteq> []"
    by (simp_all add: js_def)
  from missing_credential_reported [OF unconfigured_has_no_key,
      where body = "request_body (js ''function f(){}'') (js ''add logging'')"
        and cv = "Some (JStr (js ''function f(){}''))"
        and pv = "Some (JStr (js ''add logging''))"]
    unconfigured_has_no_key ne
  show ?thesis
    by (simp add: request_body_props)
qed

text \<open>Against C8 as stated: without the credential, the route answers a request whose
  \<open>code\<close> is empty with status 400 and the input message, not the configuration
  message.\<close>

theorem route_checks_input_before_credential:
  "not_str (OPENAI_API_KEY (unconfigured plain_reply))
   \<and> POST (unconfigured plain_reply) (Inr (request_body [] (js ''add logging'')))
       = ([], \<lparr>status = 400, payload = error_object required_message\<rparr>)
   \<and> required_message \<noteq> not_configured_message"
proof -
  have "js_not (Some (JStr []))"
    by (simp add: js_not_def)
  then have "POST (unconfigured plain_reply) (Inr (request_body [] (js ''add logging'')))
       = ([], \<lparr>status = 400, payload = error_object required_message\<rparr>)"
    by (intro POST_rejects_missing_input [OF request_body_props]) simp
  moreover have "required_message \<noteq> not_configured_message"
    by (simp add: required_message_def not_configured_message_def js_def cu_def)
  ultimately show ?thesis
    using unconfigured_has_no_key by simp
qed

subsection \<open>Empty input\<close>

text \<open>
  C2 asks that a request with an empty \<open>code\<close> or \<open>prompt\<close> is rejected before
  any generation call. The HTTP route does so (\<open>POST_rejects_missing_input\<close>).
  \<open>iterateCode\<close> has no such check: with an empty \<open>code\<close> it makes the
  generation call and returns what the model answered.
\<close>

theorem iterateCode_calls_model_on_empty_code:
  "iterateCode (answering plain_reply) [] (js ''add logging'')
   = ([request_for [] (js ''add logging'')],
      Inr \<lparr>modifiedCode = Some (JStr (js ''function f(){console.log(1)}'')),
           explanation = Some (JStr (js ''added log''))\<rparr>)"
proof -
  let ?kvs = "[(js ''modifiedCode'', JStr (js ''function f(){console.log(1)}'')),
               (js ''explanation'', JStr (js ''added log''))]"
  have parsed: "safeJsonParse plain_reply = Inr (JObj ?kvs)"
    by code_simp
  have m: "get_prop (JObj ?kvs) (js ''modifiedCode'') = Inr (Some (JStr (js ''function f(){console.log(1)}'')))"
    by simp
  have x: "get_prop (JObj ?kvs) (js ''explanation'') = Inr (Some (JStr (js ''added log'')))"
    by code_simp
  have t: "js ''function f(){console.log(1)}'' \<noteq> []" "js ''added log'' \<noteq> []"
    by (simp_all add: js_def)
  have "result_of_parsed plain_reply (JObj ?kvs)
      = Inr \<lparr>modifiedCode = Some (JStr (js ''function f(){console.log(1)}'')),
             explanation = Some (JStr (js ''added log''))\<rparr>"
    using t by (simp add: result_of_parsed_not_null [OF m x])
  with parsed show ?thesis
    by (intro iterateCode_returns [OF answering_configured answering_generates])
qed

end
